theory Spec2Isabelle
  imports Main
begin

section \<open>Host-language values\<close>

text \<open>
  The module \<^verbatim>\<open>packages/robo/src/cli/compiler/typescript.ts\<close> bridges the build
  pipeline to two optional providers, the TypeScript compiler and the SWC transformer.
  Values of type \<^verbatim>\<open>any\<close> (the parsed configuration, the values of compiler options)
  are modelled by a small datatype of JavaScript values.
\<close>

datatype js_value =
    JUndefined
  | JNull
  | JBool bool
  | JNum int
  | JStr string
  | JArr "js_value list"
  | JObj "(string \<times> js_value) list"

text \<open>What an \<^verbatim>\<open>if (v)\<close> tests.\<close>

fun truthy :: "js_value \<Rightarrow> bool" where
  "truthy JUndefined = False"
| "truthy JNull = False"
| "truthy (JBool b) = b"
| "truthy (JNum n) = (n \<noteq> 0)"
| "truthy (JStr s) = (s \<noteq> [])"
| "truthy (JArr xs) = True"
| "truthy (JObj kvs) = True"

text \<open>
  Everything that can be thrown or rejected: a property read on \<^verbatim>\<open>undefined\<close> or
  \<^verbatim>\<open>null\<close>, a failed file read, the three ways a dynamic import fails, and a position
  lookup on an offset that is not there.
\<close>

datatype exn =
    TypeError
  | ReadFileError
  | ModuleNotFound
  | IncompatibleVersion
  | LoadError
  | PositionUndefined

text \<open>
  The property read \<^verbatim>\<open>v.k\<close>: a TypeError on \<^verbatim>\<open>undefined\<close> and \<^verbatim>\<open>null\<close>, the
  property's value on an object, \<^verbatim>\<open>undefined\<close> when the object lacks it and on the other
  values (none of the names read here is a property of a number, string, boolean or
  array).
\<close>

fun get_property :: "js_value \<Rightarrow> string \<Rightarrow> exn + js_value" where
  "get_property JUndefined k = Inl TypeError"
| "get_property JNull k = Inl TypeError"
| "get_property (JObj kvs) k = Inr (case map_of kvs k of None \<Rightarrow> JUndefined | Some v \<Rightarrow> v)"
| "get_property v k = Inr JUndefined"

text \<open>
  \<^verbatim>\<open>CompilerOptions\<close> is an object with an index signature: a map from option names
  to values. Reading an option that is not set gives \<^verbatim>\<open>undefined\<close>.
\<close>

type_synonym CompilerOptions = "string \<rightharpoonup> js_value"

definition option_value :: "CompilerOptions \<Rightarrow> string \<Rightarrow> js_value" where
  "option_value opts k = (case opts k of None \<Rightarrow> JUndefined | Some v \<Rightarrow> v)"

text \<open>
  A number inside a template literal is rendered in decimal. Lines and columns are
  indices into a source text, far below the range where JavaScript leaves plain
  decimal notation.
\<close>

definition digit_char :: "nat \<Rightarrow> char" where
  "digit_char d = ''0123456789'' ! d"

fun show_nat :: "nat \<Rightarrow> string" where
  "show_nat n = (if n < 10 then [digit_char n] else show_nat (n div 10) @ [digit_char (n mod 10)])"

declare show_nat.simps [simp del]

text \<open>Reading a decimal numeral back, to state that \<open>show_nat\<close> writes one.\<close>

definition digit_value :: "char \<Rightarrow> nat" where
  "digit_value c = of_char c - 48"

definition read_nat :: "string \<Rightarrow> nat" where
  "read_nat s = foldl (\<lambda>a c. 10 * a + digit_value c) 0 s"

section \<open>The provider's data\<close>

datatype DiagnosticCategory = Warning | Error | Suggestion | Message

record SourceFile =
  fileName :: string
  sourceText :: string

text \<open>
  A diagnostic's message is a string or a chain of messages, each with the chains that
  follow it.
\<close>

datatype DiagnosticMessageChain = MessageChain string "DiagnosticMessageChain list"

datatype DiagnosticMessageText = MessageString string | MessageChained DiagnosticMessageChain

text \<open>
  \<^verbatim>\<open>Diagnostic\<close>: \<^verbatim>\<open>file\<close> and \<^verbatim>\<open>start\<close> are both of a type
  \<^verbatim>\<open>... | undefined\<close>, declared independently of each other (the field \<^verbatim>\<open>file\<close> is \<open>diagnostic_file\<close> here:
  \<open>file\<close> is a keyword).
\<close>

record Diagnostic =
  category :: DiagnosticCategory
  diagnostic_file :: "SourceFile option"
  start :: "nat option"
  messageText :: DiagnosticMessageText

record EmitResult =
  emitSkipped :: bool
  diagnostics :: "Diagnostic list"

text \<open>A program answers \<^verbatim>\<open>program.emit()\<close>; the provider reads its pre-emit diagnostics.\<close>

record Program =
  emit :: EmitResult
  preEmit :: "Diagnostic list"

record ParsedConfig =
  config :: js_value
  error :: "Diagnostic option"

record ConvertedOptions =
  options :: CompilerOptions
  errors :: "Diagnostic list"

text \<open>
  The TypeScript compiler is not part of this repository: the module uses it through the
  handle \<^verbatim>\<open>ts\<close>. The functions and constants the module reads from it are the fields
  of a record, so that every statement below holds for whatever the provider computes.
  \<^verbatim>\<open>getLineAndCharacterOfPosition\<close> is declared on a \<^verbatim>\<open>number\<close> position and
  returns a 0-based line and character.
\<close>

record Typescript =
  ScriptTarget_Latest :: int
  ModuleResolutionKind_NodeNext :: int
  sys_readDirectory :: "string \<Rightarrow> string list \<Rightarrow> string list"
  createProgram :: "string list \<Rightarrow> CompilerOptions \<Rightarrow> Program"
  getPreEmitDiagnostics :: "Program \<Rightarrow> Diagnostic list"
  getLineAndCharacterOfPosition :: "SourceFile \<Rightarrow> nat \<Rightarrow> nat \<times> nat"
  flattenDiagnosticMessageText :: "DiagnosticMessageText \<Rightarrow> string \<Rightarrow> string"
  parseConfigFileTextToJson :: "string \<Rightarrow> string \<Rightarrow> ParsedConfig"
  convertCompilerOptionsFromJson :: "js_value \<Rightarrow> string \<Rightarrow> ConvertedOptions"

text \<open>The transformer is only ever stored and tested for presence.\<close>

datatype SwcTransform = SwcTransformFunction string

record TypescriptModule =
  default_export :: Typescript

record SwcModule =
  transform_export :: SwcTransform

section \<open>formatDiagnostic\<close>

text \<open>
  \<^verbatim>\<open>
  function formatDiagnostic(diagnostic: Diagnostic): string {
    if (diagnostic.file) {
      const { line, character } = ts.getLineAndCharacterOfPosition(diagnostic.file, diagnostic.start)
      const message = ts.flattenDiagnosticMessageText(diagnostic.messageText, '\n')
      return `${diagnostic.file.fileName} (${line + 1},${character + 1}): ${message}`
    } else {
      return ts.flattenDiagnosticMessageText(diagnostic.messageText, '\n')
    }
  }
  \<close>
  The source hands \<^verbatim>\<open>diagnostic.start\<close> to the lookup without testing it. The lookup is
  declared on numbers, so the call on an absent offset has no value in the model: it is
  the error \<open>PositionUndefined\<close>.
\<close>

definition newline :: string where
  "newline = [CHR 0x0A]"

definition formatDiagnostic :: "Typescript \<Rightarrow> Diagnostic \<Rightarrow> exn + string" where
  "formatDiagnostic tsp diagnostic =
     (case diagnostic_file diagnostic of
        Some f \<Rightarrow>
          (case start diagnostic of
             None \<Rightarrow> Inl PositionUndefined
           | Some pos \<Rightarrow>
               (let (line, character) = getLineAndCharacterOfPosition tsp f pos;
                    message = flattenDiagnosticMessageText tsp (messageText diagnostic) newline
                in Inr (fileName f @ '' ('' @ show_nat (line + 1) @ '','' @ show_nat (character + 1)
                          @ ''): '' @ message)))
      | None \<Rightarrow> Inr (flattenDiagnosticMessageText tsp (messageText diagnostic) newline))"

section \<open>Effects\<close>

text \<open>
  The module logs through \<^verbatim>\<open>compilerLogger\<close>, starts dynamic imports, creates the
  provider's program and ends the process with \<^verbatim>\<open>process.exit\<close>. A run is the list of
  these effects in the order they happen, with the way the run ends: it returns a value,
  the process has exited, or an exception leaves the function (a rejected promise, for
  the asynchronous functions).
\<close>

datatype log_channel = ChDebug | ChInfo | ChWarn | ChError

datatype log_arg = ArgString string | ArgDiagnostic Diagnostic

datatype event =
    Log log_channel "log_arg list"
  | Import string
  | CreateProgram "string list" CompilerOptions
  | ProcessExit int

datatype 'a outcome = Returned 'a | Exited | Thrown exn

text \<open>
  What the module reads from its surroundings: the runtime flag, what each dynamic import
  would yield, the working directory, \<^verbatim>\<open>node:path\<close> and the file system.
\<close>

record env =
  IS_BUN_RUNTIME :: bool
  import_typescript :: "exn + TypescriptModule"
  import_swc :: "exn + SwcModule"
  cwd :: string
  path_join :: "string \<Rightarrow> string \<Rightarrow> string"
  path_dirname :: "string \<Rightarrow> string"
  existsSync :: "string \<Rightarrow> bool"
  readFile :: "string \<Rightarrow> exn + string"

text \<open>
  The two module-level handles, \<^verbatim>\<open>export let ts\<close> and \<^verbatim>\<open>export let transform\<close>:
  \<open>None\<close> is \<^verbatim>\<open>undefined\<close>.
\<close>

record handles =
  ts :: "Typescript option"
  transform :: "SwcTransform option"

definition unset_handles :: handles where
  "unset_handles = \<lparr>ts = None, transform = None\<rparr>"

section \<open>buildDeclarationFiles\<close>

text \<open>
  The object literal of the compiler options: the defaults, then the spread of
  \<^verbatim>\<open>tsOptions ?? {}\<close>, then \<^verbatim>\<open>incremental: false\<close>. A later property replaces an
  earlier one of the same name.
\<close>

definition declarationOptions :: "Typescript \<Rightarrow> CompilerOptions option \<Rightarrow> CompilerOptions" where
  "declarationOptions tsp tsOptions =
     ([''target'' \<mapsto> JNum (ScriptTarget_Latest tsp),
       ''rootDir'' \<mapsto> JStr ''src'',
       ''outDir'' \<mapsto> JStr ''.robo/build'',
       ''declaration'' \<mapsto> JBool True,
       ''emitDeclarationOnly'' \<mapsto> JBool True,
       ''moduleResolution'' \<mapsto> JNum (ModuleResolutionKind_NodeNext tsp),
       ''noEmit'' \<mapsto> JBool False,
       ''skipLibCheck'' \<mapsto> JBool True]
      ++ (case tsOptions of None \<Rightarrow> Map.empty | Some overrides \<Rightarrow> overrides))
     (''incremental'' \<mapsto> JBool False)"

text \<open>
  The callback of \<^verbatim>\<open>allDiagnostics.forEach\<close>: the \<^verbatim>\<open>switch\<close> on the category, each
  case formatting the diagnostic (the argument is evaluated first, so a failure there
  logs nothing) and calling one method of the logger.
\<close>

definition logDiagnostic :: "Typescript \<Rightarrow> Diagnostic \<Rightarrow> exn + event" where
  "logDiagnostic tsp diagnostic =
     (case category diagnostic of
        Error \<Rightarrow>
          (case formatDiagnostic tsp diagnostic of
             Inl e \<Rightarrow> Inl e | Inr s \<Rightarrow> Inr (Log ChError [ArgString s]))
      | Warning \<Rightarrow>
          (case formatDiagnostic tsp diagnostic of
             Inl e \<Rightarrow> Inl e | Inr s \<Rightarrow> Inr (Log ChWarn [ArgString s]))
      | Message \<Rightarrow>
          (case formatDiagnostic tsp diagnostic of
             Inl e \<Rightarrow> Inl e | Inr s \<Rightarrow> Inr (Log ChInfo [ArgString s]))
      | Suggestion \<Rightarrow>
          (case formatDiagnostic tsp diagnostic of
             Inl e \<Rightarrow> Inl e | Inr s \<Rightarrow> Inr (Log ChInfo [ArgString s])))"

text \<open>
  \<^verbatim>\<open>forEach\<close> runs the callback on each element in order and stops at the first
  exception: the events logged so far, and the exception if there was one.
\<close>

fun forEach_logDiagnostic :: "Typescript \<Rightarrow> Diagnostic list \<Rightarrow> event list \<times> exn option" where
  "forEach_logDiagnostic tsp [] = ([], None)"
| "forEach_logDiagnostic tsp (d # ds) =
     (case logDiagnostic tsp d of
        Inl e \<Rightarrow> ([], Some e)
      | Inr ev \<Rightarrow> (case forEach_logDiagnostic tsp ds of (evs, r) \<Rightarrow> (ev # evs, r)))"

text \<open>
  \<^verbatim>\<open>
  export function buildDeclarationFiles(tsOptions?: CompilerOptions) {
    const options: CompilerOptions = { ..., ...(tsOptions ?? {}), incremental: false }
    const fileNames = ts.sys.readDirectory('src', ['.ts', '.tsx'])
    const program = ts.createProgram(fileNames, options)
    const emitResult = program.emit()
    const allDiagnostics = ts.getPreEmitDiagnostics(program).concat(emitResult.diagnostics)
    allDiagnostics.forEach((diagnostic) => { switch (diagnostic.category) { ... } })
    if (emitResult.emitSkipped) {
      process.exit(1)
    }
  }
  \<close>
  With the handle \<^verbatim>\<open>ts\<close> undefined the first read of \<^verbatim>\<open>ts.ScriptTarget\<close> throws.
\<close>

definition buildDeclarationFiles :: "handles \<Rightarrow> CompilerOptions option \<Rightarrow> event list \<times> unit outcome" where
  "buildDeclarationFiles h tsOptions =
     (case ts h of
        None \<Rightarrow> ([], Thrown TypeError)
      | Some tsp \<Rightarrow>
          (let options = declarationOptions tsp tsOptions;
               fileNames = sys_readDirectory tsp ''src'' [''.ts'', ''.tsx''];
               program = createProgram tsp fileNames options;
               emitResult = emit program;
               allDiags = getPreEmitDiagnostics tsp program @ diagnostics emitResult
           in case forEach_logDiagnostic tsp allDiags of
                (logged, Some e) \<Rightarrow> (CreateProgram fileNames options # logged, Thrown e)
              | (logged, None) \<Rightarrow>
                  if emitSkipped emitResult
                  then (CreateProgram fileNames options # logged @ [ProcessExit 1], Exited)
                  else (CreateProgram fileNames options # logged, Returned ())))"

text \<open>
  The values of the local constants \<^verbatim>\<open>fileNames\<close>, \<^verbatim>\<open>program\<close>, \<^verbatim>\<open>emitResult\<close> and
  \<^verbatim>\<open>allDiagnostics\<close> of a call, to state properties of it, and the observations made on
  a run: the option sets handed to \<^verbatim>\<open>ts.createProgram\<close> and the statuses
  \<^verbatim>\<open>process.exit\<close> was called with.
\<close>

definition fileNames :: "Typescript \<Rightarrow> string list" where
  "fileNames tsp = sys_readDirectory tsp ''src'' [''.ts'', ''.tsx'']"

definition program :: "Typescript \<Rightarrow> CompilerOptions option \<Rightarrow> Program" where
  "program tsp tsOptions = createProgram tsp (fileNames tsp) (declarationOptions tsp tsOptions)"

definition emitResult :: "Typescript \<Rightarrow> CompilerOptions option \<Rightarrow> EmitResult" where
  "emitResult tsp tsOptions = emit (program tsp tsOptions)"

definition allDiagnostics :: "Typescript \<Rightarrow> CompilerOptions option \<Rightarrow> Diagnostic list" where
  "allDiagnostics tsp tsOptions =
     getPreEmitDiagnostics tsp (program tsp tsOptions) @ diagnostics (emitResult tsp tsOptions)"

fun handed_options :: "event list \<Rightarrow> CompilerOptions list" where
  "handed_options [] = []"
| "handed_options (CreateProgram names opts # evs) = opts # handed_options evs"
| "handed_options (ev # evs) = handed_options evs"

fun exit_statuses :: "event list \<Rightarrow> int list" where
  "exit_statuses [] = []"
| "exit_statuses (ProcessExit status # evs) = status # exit_statuses evs"
| "exit_statuses (ev # evs) = exit_statuses evs"

section \<open>getTypeScriptCompilerOptions\<close>

text \<open>
  \<^verbatim>\<open>
  export async function getTypeScriptCompilerOptions(): Promise<CompilerOptions> {
    const configFileName = path.join(process.cwd(), 'tsconfig.json')
    const configFileContents = await readFile(configFileName, 'utf8')
    const { config: tsconfig, error } = ts.parseConfigFileTextToJson(configFileName, configFileContents)
    if (error) {
      compilerLogger.error('Error parsing tsconfig.json:', error)
      process.exit(1)
    }
    const { options: tsOptions } = ts.convertCompilerOptionsFromJson(
      tsconfig.compilerOptions, path.dirname(configFileName))
    if (tsOptions.errors) {
      compilerLogger.error('Error parsing compiler options from tsconfig.json')
      process.exit(1)
    }
    return tsOptions
  }
  \<close>
  Only the field \<^verbatim>\<open>options\<close> of the conversion's result is destructured, under the
  name \<^verbatim>\<open>tsOptions\<close>; the test \<^verbatim>\<open>tsOptions.errors\<close> reads the option named
  \<^verbatim>\<open>errors\<close> of that option set.
\<close>

definition getTypeScriptCompilerOptions :: "env \<Rightarrow> handles \<Rightarrow> event list \<times> CompilerOptions outcome" where
  "getTypeScriptCompilerOptions ev h =
     (let configFileName = path_join ev (cwd ev) ''tsconfig.json'' in
      case readFile ev configFileName of
        Inl e \<Rightarrow> ([], Thrown e)
      | Inr configFileContents \<Rightarrow>
          (case ts h of
             None \<Rightarrow> ([], Thrown TypeError)
           | Some tsp \<Rightarrow>
               (let parsed = parseConfigFileTextToJson tsp configFileName configFileContents in
                case error parsed of
                  Some err \<Rightarrow>
                    ([Log ChError [ArgString ''Error parsing tsconfig.json:'', ArgDiagnostic err],
                      ProcessExit 1], Exited)
                | None \<Rightarrow>
                    (case get_property (config parsed) ''compilerOptions'' of
                       Inl e \<Rightarrow> ([], Thrown e)
                     | Inr compilerOptions \<Rightarrow>
                         (let tsOptions =
                                options (convertCompilerOptionsFromJson tsp compilerOptions
                                           (path_dirname ev configFileName))
                          in if truthy (option_value tsOptions ''errors'')
                             then ([Log ChError
                                      [ArgString ''Error parsing compiler options from tsconfig.json''],
                                    ProcessExit 1], Exited)
                             else ([], Returned tsOptions))))))"

section \<open>isTypescriptProject\<close>

text \<open>
  \<^verbatim>\<open>
  export function isTypescriptProject() {
    const missing: string[] = []
    if (!existsSync(path.join(process.cwd(), 'tsconfig.json'))) { missing.push('tsconfig.json') }
    if (typeof ts === 'undefined') { missing.push('typescript') }
    if (typeof transform === 'undefined') { missing.push('@swc/core') }
    return { isTypeScript: missing.length === 0, missing }
  }
  \<close>
\<close>

record Classification =
  isTypeScript :: bool
  missing :: "string list"

definition isTypescriptProject :: "env \<Rightarrow> handles \<Rightarrow> Classification" where
  "isTypescriptProject ev h =
     (let missing0 = [];
          missing1 = (if \<not> existsSync ev (path_join ev (cwd ev) ''tsconfig.json'')
                      then missing0 @ [''tsconfig.json''] else missing0);
          missing2 = (if ts h = None then missing1 @ [''typescript''] else missing1);
          missing3 = (if transform h = None then missing2 @ [''@swc/core''] else missing2)
      in \<lparr>isTypeScript = (length missing3 = 0), missing = missing3\<rparr>)"

section \<open>preloadTransformers\<close>

text \<open>
  \<^verbatim>\<open>
  export async function preloadTransformers() {
    try {
      if (!IS_BUN_RUNTIME) {
        compilerLogger.debug(`Preloading Typescript transformers...`)
        const [typescript, swc] = await Promise.all([import('typescript'), import('@swc/core')])
        ts = typescript.default
        transform = swc.transform
      }
    } catch {
      // Ignore
    }
  }
  \<close>
  \<^verbatim>\<open>Promise.all\<close> fulfils with both modules when both imports fulfil and rejects as soon
  as one of them rejects.
\<close>

definition Promise_all :: "exn + 'a \<Rightarrow> exn + 'b \<Rightarrow> exn + ('a \<times> 'b)" where
  "Promise_all p q =
     (case p of
        Inl e \<Rightarrow> Inl e
      | Inr a \<Rightarrow> (case q of Inl e \<Rightarrow> Inl e | Inr b \<Rightarrow> Inr (a, b)))"

text \<open>The body of the \<^verbatim>\<open>try\<close> block: the events, the handles and how the block ends.\<close>

definition preload_try :: "env \<Rightarrow> handles \<Rightarrow> event list \<times> handles \<times> unit outcome" where
  "preload_try ev h =
     (if \<not> IS_BUN_RUNTIME ev then
        (case Promise_all (import_typescript ev) (import_swc ev) of
           Inl e \<Rightarrow>
             ([Log ChDebug [ArgString ''Preloading Typescript transformers...''],
               Import ''typescript'', Import ''@swc/core''], h, Thrown e)
         | Inr (typescript, swc) \<Rightarrow>
             ([Log ChDebug [ArgString ''Preloading Typescript transformers...''],
               Import ''typescript'', Import ''@swc/core''],
              h\<lparr>ts := Some (default_export typescript), transform := Some (transform_export swc)\<rparr>,
              Returned ()))
      else ([], h, Returned ()))"

text \<open>The empty \<^verbatim>\<open>catch\<close>: whatever the block throws, the function returns.\<close>

definition preloadTransformers :: "env \<Rightarrow> handles \<Rightarrow> event list \<times> handles \<times> unit outcome" where
  "preloadTransformers ev h =
     (case preload_try ev h of
        (evs, h', Thrown e) \<Rightarrow> (evs, h', Returned ())
      | r \<Rightarrow> r)"

section \<open>The specified log of a diagnostic\<close>




section \<open>Sample inputs\<close>

text \<open>
  A small provider and project on which the definitions are run. The provider's line
  lookup counts the line breaks before the offset; its flattening joins the messages of a
  chain with the separator; its parser knows two configuration texts and reports an error
  on any other; its conversion knows the target \<^verbatim>\<open>ES2020\<close> and reports an error for any
  other target, leaving the option out; it skips emission when \<^verbatim>\<open>noEmit\<close> is set.
\<close>

definition sample_lineAndCharacter :: "SourceFile \<Rightarrow> nat \<Rightarrow> nat \<times> nat" where
  "sample_lineAndCharacter f pos =
     (let pre = take pos (sourceText f)
      in (count_list pre (CHR 0x0A), length (takeWhile (\<lambda>c. c \<noteq> CHR 0x0A) (rev pre))))"

fun chain_messages :: "DiagnosticMessageChain \<Rightarrow> string list" where
  "chain_messages (MessageChain t next) = t # concat (map chain_messages next)"

fun join :: "string \<Rightarrow> string list \<Rightarrow> string" where
  "join sep [] = []"
| "join sep [s] = s"
| "join sep (s # ss) = s @ sep @ join sep ss"

fun sample_flatten :: "DiagnosticMessageText \<Rightarrow> string \<Rightarrow> string" where
  "sample_flatten (MessageString s) sep = s"
| "sample_flatten (MessageChained c) sep = join sep (chain_messages c)"

definition a_ts :: SourceFile where
  "a_ts = \<lparr>fileName = ''a.ts'',
           sourceText = ''a'' @ newline @ ''b'' @ newline @ ''c'' @ newline @ ''d'' @ newline
                          @ ''let x = y z''\<rparr>"

definition unexpected_token :: Diagnostic where
  "unexpected_token =
     \<lparr>category = Error, diagnostic_file = Some a_ts, start = Some 17,
      messageText = MessageString ''Unexpected token''\<rparr>"

definition type_mismatch :: Diagnostic where
  "type_mismatch =
     \<lparr>category = Warning, diagnostic_file = None, start = None,
      messageText = MessageChained (MessageChain ''Type mismatch'' [MessageChain ''in argument 1'' []])\<rparr>"

definition config_error :: Diagnostic where
  "config_error =
     \<lparr>category = Error, diagnostic_file = None, start = None,
      messageText = MessageString ''Invalid configuration''\<rparr>"

definition sample_createProgram :: "string list \<Rightarrow> CompilerOptions \<Rightarrow> Program" where
  "sample_createProgram names opts =
     \<lparr>emit = \<lparr>emitSkipped = (opts ''noEmit'' = Some (JBool True)), diagnostics = [type_mismatch]\<rparr>,
      preEmit = [unexpected_token]\<rparr>"

definition dq :: string where
  "dq = [CHR 0x22]"

definition tsconfig_text :: "string \<Rightarrow> string" where
  "tsconfig_text target =
     ''{'' @ dq @ ''compilerOptions'' @ dq @ '': {'' @ dq @ ''target'' @ dq @ '': '' @ dq @ target @ dq @ ''}}''"

definition tsconfig_object :: "string \<Rightarrow> js_value" where
  "tsconfig_object target = JObj [(''compilerOptions'', JObj [(''target'', JStr target)])]"

definition sample_parse :: "string \<Rightarrow> string \<Rightarrow> ParsedConfig" where
  "sample_parse name contents =
     (if contents = tsconfig_text ''ES2020'' then \<lparr>config = tsconfig_object ''ES2020'', error = None\<rparr>
      else if contents = tsconfig_text ''bogus'' then \<lparr>config = tsconfig_object ''bogus'', error = None\<rparr>
      else \<lparr>config = JObj [], error = Some config_error\<rparr>)"

definition sample_convert :: "js_value \<Rightarrow> string \<Rightarrow> ConvertedOptions" where
  "sample_convert json basePath =
     (let target = (case get_property json ''target'' of Inl e \<Rightarrow> JUndefined | Inr v \<Rightarrow> v)
      in if target = JUndefined then \<lparr>options = Map.empty, errors = []\<rparr>
         else if target = JStr ''ES2020'' then \<lparr>options = [''target'' \<mapsto> JNum 7], errors = []\<rparr>
         else \<lparr>options = Map.empty, errors = [config_error]\<rparr>)"

definition sample_ts :: Typescript where
  "sample_ts =
     \<lparr>ScriptTarget_Latest = 99,
      ModuleResolutionKind_NodeNext = 99,
      sys_readDirectory = (\<lambda>dir exts. [''src/a.ts'']),
      createProgram = sample_createProgram,
      getPreEmitDiagnostics = preEmit,
      getLineAndCharacterOfPosition = sample_lineAndCharacter,
      flattenDiagnosticMessageText = sample_flatten,
      parseConfigFileTextToJson = sample_parse,
      convertCompilerOptionsFromJson = sample_convert\<rparr>"

definition sample_swc :: SwcTransform where
  "sample_swc = SwcTransformFunction ''transform''"

definition loaded_handles :: handles where
  "loaded_handles = \<lparr>ts = Some sample_ts, transform = Some sample_swc\<rparr>"

text \<open>A project at \<^verbatim>\<open>/project\<close> whose configuration file holds the given text.\<close>

definition sample_env :: "string \<Rightarrow> env" where
  "sample_env contents =
     \<lparr>IS_BUN_RUNTIME = False,
      import_typescript = Inr \<lparr>default_export = sample_ts\<rparr>,
      import_swc = Inr \<lparr>transform_export = sample_swc\<rparr>,
      cwd = ''/project'',
      path_join = (\<lambda>a b. a @ ''/'' @ b),
      path_dirname = (\<lambda>p. rev (tl (dropWhile (\<lambda>c. c \<noteq> CHR ''/'') (rev p)))),
      existsSync = (\<lambda>p. p = ''/project/tsconfig.json''),
      readFile = (\<lambda>p. if p = ''/project/tsconfig.json'' then Inr contents else Inl ReadFileError)\<rparr>"



section \<open>Helper facts\<close>

text \<open>\<open>show_nat\<close> writes the decimal numeral of its argument.\<close>

lemma digit_value_digit_char: "d < 10 \<Longrightarrow> digit_value (digit_char d) = d"
proof -
  assume "d < 10"
  then have "d \<in> {0, 1, 2, 3, 4, 5, 6, 7, 8, 9}" by auto
  then show ?thesis by (auto simp: digit_char_def digit_value_def)
qed

lemma read_nat_snoc: "read_nat (s @ [c]) = 10 * read_nat s + digit_value c"
  by (simp add: read_nat_def)

lemma read_nat_show_nat: "read_nat (show_nat n) = n"
proof (induction n rule: show_nat.induct)
  case (1 n)
  show ?case
  proof (cases "n < 10")
    case True
    then show ?thesis
      by (simp add: show_nat.simps [of n] read_nat_def digit_value_digit_char)
  next
    case False
    with 1 have "read_nat (show_nat (n div 10)) = n div 10" by simp
    with False show ?thesis
      by (simp add: show_nat.simps [of n] read_nat_snoc digit_value_digit_char)
  qed
qed

text \<open>The loop over the diagnostics only logs, and logs all of them when each can be rendered.\<close>

lemma formatDiagnostic_Inr_iff:
  "(\<exists>s. formatDiagnostic tsp d = Inr s) = (diagnostic_file d = None \<or> start d \<noteq> None)"
  by (auto simp: formatDiagnostic_def split: option.splits prod.splits)

lemma logDiagnostic_Inr:
  "formatDiagnostic tsp d = Inr s \<Longrightarrow> \<exists>ch. logDiagnostic tsp d = Inr (Log ch [ArgString s])"
  by (cases "category d") (simp_all add: logDiagnostic_def)

lemma logDiagnostic_Inl:
  "formatDiagnostic tsp d = Inl e \<Longrightarrow> logDiagnostic tsp d = Inl e"
  by (cases "category d") (simp_all add: logDiagnostic_def)


lemma handed_options_append: "handed_options (xs @ ys) = handed_options xs @ handed_options ys"
  by (induction xs rule: handed_options.induct) simp_all

lemma forEach_logDiagnostic_only_logs:
  "forEach_logDiagnostic tsp ds = (logged, r) \<Longrightarrow>
     handed_options logged = [] \<and> exit_statuses logged = []"
proof (induction ds arbitrary: logged r)
  case Nil
  then show ?case by simp
next
  case (Cons d ds)
  show ?case
  proof (cases "formatDiagnostic tsp d")
    case (Inl e)
    with Cons.prems show ?thesis by (simp add: logDiagnostic_Inl)
  next
    case (Inr s)
    then obtain ch where ch: "logDiagnostic tsp d = Inr (Log ch [ArgString s])"
      using logDiagnostic_Inr by blast
    obtain evs r' where f: "forEach_logDiagnostic tsp ds = (evs, r')"
      by (cases "forEach_logDiagnostic tsp ds")
    with Cons.prems ch have "logged = Log ch [ArgString s] # evs" by simp
    with Cons.IH [OF f] show ?thesis by simp
  qed
qed




lemma buildDeclarationFiles_unfold:
  "ts h = Some tsp \<Longrightarrow>
   buildDeclarationFiles h tsOptions =
     (case forEach_logDiagnostic tsp (allDiagnostics tsp tsOptions) of
        (logged, Some e) \<Rightarrow>
          (CreateProgram (fileNames tsp) (declarationOptions tsp tsOptions) # logged, Thrown e)
      | (logged, None) \<Rightarrow>
          if emitSkipped (emitResult tsp tsOptions)
          then (CreateProgram (fileNames tsp) (declarationOptions tsp tsOptions)
                  # logged @ [ProcessExit 1], Exited)
          else (CreateProgram (fileNames tsp) (declarationOptions tsp tsOptions) # logged,
                Returned ()))"
  by (simp add: buildDeclarationFiles_def allDiagnostics_def emitResult_def program_def
      fileNames_def Let_def split: prod.splits option.splits)




section \<open>Rendering of a diagnostic\<close>

text \<open>
  Claim C8. A diagnostic with a file and an offset, for which the provider's lookup gives
  the 0-based line and character, is rendered as the file's name, a space, the line plus
  one and the character plus one in parentheses separated by a comma, a colon, a space,
  and the provider's flattening of the message text with the line break as separator; a
  diagnostic with no file is rendered as that flattening alone. On the sample file
  \<^verbatim>\<open>a.ts\<close>, line 4 and character 9 with the message \<^verbatim>\<open>Unexpected token\<close> give
  \<^verbatim>\<open>a.ts (5,10): Unexpected token\<close>.
\<close>

theorem formatDiagnostic_rendering:
  "(diagnostic_file d = Some f \<and> start d = Some pos \<and>
      getLineAndCharacterOfPosition tsp f pos = (line, character) \<longrightarrow>
        formatDiagnostic tsp d =
          Inr (fileName f @ '' ('' @ show_nat (line + 1) @ '','' @ show_nat (character + 1) @ ''): ''
                 @ flattenDiagnosticMessageText tsp (messageText d) newline))
   \<and> (diagnostic_file d = None \<longrightarrow>
        formatDiagnostic tsp d = Inr (flattenDiagnosticMessageText tsp (messageText d) newline))"
  by (simp add: formatDiagnostic_def)

theorem formatDiagnostic_rendering_witness:
  "getLineAndCharacterOfPosition sample_ts a_ts 17 = (4, 9)
   \<and> formatDiagnostic sample_ts unexpected_token = Inr ''a.ts (5,10): Unexpected token''
   \<and> formatDiagnostic sample_ts type_mismatch = Inr (''Type mismatch'' @ newline @ ''in argument 1'')"
proof -
  have p: "getLineAndCharacterOfPosition sample_ts a_ts 17 = (4, 9)"
    by (simp add: sample_ts_def sample_lineAndCharacter_def a_ts_def newline_def)
  have f: "diagnostic_file unexpected_token = Some a_ts" "start unexpected_token = Some 17"
    "diagnostic_file type_mismatch = None"
    by (simp_all add: unexpected_token_def type_mismatch_def)
  have m: "flattenDiagnosticMessageText sample_ts (messageText unexpected_token) newline = ''Unexpected token''"
    "flattenDiagnosticMessageText sample_ts (messageText type_mismatch) newline
       = ''Type mismatch'' @ newline @ ''in argument 1''"
    by (simp_all add: sample_ts_def unexpected_token_def type_mismatch_def)
  have n: "show_nat (4 + 1) = ''5''" "show_nat (9 + 1) = ''10''" "fileName a_ts = ''a.ts''"
    by (simp_all add: show_nat.simps digit_char_def a_ts_def)
  show ?thesis
    using formatDiagnostic_rendering [of unexpected_token a_ts 17 sample_ts 4 9]
      formatDiagnostic_rendering [of type_mismatch a_ts 17 sample_ts 4 9] p f m n
    by simp
qed

section \<open>The domain of formatDiagnostic\<close>

text \<open>
  Claim C10. A diagnostic with no file never reaches the position lookup: whatever its
  start offset, the result is the flattened message. A diagnostic with a file and no
  start offset is handed to the lookup unchecked and has no rendering. So
  formatDiagnostic yields a string exactly for the diagnostics that have no file or have
  a start offset.
\<close>

theorem formatDiagnostic_domain:
  "(diagnostic_file d = None \<longrightarrow>
      formatDiagnostic tsp (d\<lparr>start := p\<rparr>) =
        Inr (flattenDiagnosticMessageText tsp (messageText d) newline))
   \<and> (diagnostic_file d \<noteq> None \<and> start d = None \<longrightarrow> formatDiagnostic tsp d = Inl PositionUndefined)
   \<and> ((\<exists>s. formatDiagnostic tsp d = Inr s) = (diagnostic_file d = None \<or> start d \<noteq> None))"
  by (auto simp: formatDiagnostic_def split: option.splits prod.splits)

theorem formatDiagnostic_domain_witness:
  "formatDiagnostic sample_ts (type_mismatch\<lparr>start := None\<rparr>)
     = Inr (''Type mismatch'' @ newline @ ''in argument 1'')
   \<and> formatDiagnostic sample_ts (type_mismatch\<lparr>start := Some 3\<rparr>)
     = Inr (''Type mismatch'' @ newline @ ''in argument 1'')
   \<and> formatDiagnostic sample_ts (unexpected_token\<lparr>start := None\<rparr>) = Inl PositionUndefined
   \<and> (\<exists>s. formatDiagnostic sample_ts unexpected_token = Inr s)"
proof -
  have f: "diagnostic_file type_mismatch = None"
    "diagnostic_file (unexpected_token\<lparr>start := None\<rparr>) \<noteq> None"
    "start (unexpected_token\<lparr>start := None\<rparr>) = None"
    "diagnostic_file unexpected_token \<noteq> None" "start unexpected_token \<noteq> None"
    by (simp_all add: unexpected_token_def type_mismatch_def)
  have m: "flattenDiagnosticMessageText sample_ts (messageText type_mismatch) newline
       = ''Type mismatch'' @ newline @ ''in argument 1''"
    by (simp add: sample_ts_def type_mismatch_def)
  show ?thesis
    using formatDiagnostic_domain [of type_mismatch sample_ts None]
      formatDiagnostic_domain [of type_mismatch sample_ts "Some 3"]
      formatDiagnostic_domain [of "unexpected_token\<lparr>start := None\<rparr>" sample_ts None]
      formatDiagnostic_domain [of unexpected_token sample_ts None] f m
    by simp
qed

section \<open>Routing by severity\<close>



section \<open>Termination after emission\<close>




section \<open>The options handed to the provider\<close>

text \<open>
  Claim C4. Whatever the argument of buildDeclarationFiles (absent, or any option set,
  also one that sets \<^verbatim>\<open>incremental\<close> to true), the option set built by the function has
  \<^verbatim>\<open>incremental\<close> false, and it is the one option set handed to
  \<^verbatim>\<open>ts.createProgram\<close> in the run.
\<close>

theorem buildDeclarationFiles_incremental_false:
  "option_value (declarationOptions tsp tsOptions) ''incremental'' = JBool False
   \<and> (ts h = Some tsp \<longrightarrow>
        handed_options (fst (buildDeclarationFiles h tsOptions)) = [declarationOptions tsp tsOptions])"
proof -
  have "handed_options (fst (buildDeclarationFiles h tsOptions)) = [declarationOptions tsp tsOptions]"
    if t: "ts h = Some tsp"
  proof -
    obtain logged r where f: "forEach_logDiagnostic tsp (allDiagnostics tsp tsOptions) = (logged, r)"
      by (cases "forEach_logDiagnostic tsp (allDiagnostics tsp tsOptions)")
    have "handed_options logged = []" using forEach_logDiagnostic_only_logs [OF f] by simp
    then show ?thesis
      using f by (cases r) (simp_all add: buildDeclarationFiles_unfold [OF t] handed_options_append)
  qed
  then show ?thesis by (simp add: option_value_def declarationOptions_def)
qed

theorem buildDeclarationFiles_incremental_false_witness:
  "ts loaded_handles = Some sample_ts
   \<and> map (\<lambda>opts. option_value opts ''incremental'')
         (handed_options (fst (buildDeclarationFiles loaded_handles (Some [''incremental'' \<mapsto> JBool True]))))
       = [JBool False]
   \<and> map (\<lambda>opts. option_value opts ''incremental'')
         (handed_options (fst (buildDeclarationFiles loaded_handles None))) = [JBool False]"
proof -
  have h: "ts loaded_handles = Some sample_ts" by (simp add: loaded_handles_def)
  show ?thesis
    using buildDeclarationFiles_incremental_false [of sample_ts "Some [''incremental'' \<mapsto> JBool True]" loaded_handles]
      buildDeclarationFiles_incremental_false [of sample_ts None loaded_handles] h
    by simp
qed

section \<open>Loading the providers\<close>

text \<open>
  Claim C3. preloadTransformers always returns: whatever the imports do, no exception
  leaves it and the process does not exit. When the import of a provider fails (with any
  error: a missing dependency, an incompatible version, a load error), the handle of that
  provider keeps the value it had, so it remains unset when it was unset. Under the
  runtime flag nothing is imported or logged and both handles keep their values.
\<close>

theorem preloadTransformers_never_throws:
  "snd (snd (preloadTransformers ev h)) = Returned ()
   \<and> (import_typescript ev = Inl e \<longrightarrow> ts (fst (snd (preloadTransformers ev h))) = ts h)
   \<and> (import_swc ev = Inl e \<longrightarrow> transform (fst (snd (preloadTransformers ev h))) = transform h)
   \<and> (IS_BUN_RUNTIME ev \<longrightarrow> preloadTransformers ev h = ([], h, Returned ()))"
  by (simp add: preloadTransformers_def preload_try_def Promise_all_def split: sum.splits prod.splits)

theorem preloadTransformers_never_throws_witness:
  "snd (snd (preloadTransformers (sample_env []\<lparr>import_typescript := Inl ModuleNotFound\<rparr>) unset_handles)) = Returned ()
   \<and> ts (fst (snd (preloadTransformers (sample_env []\<lparr>import_typescript := Inl ModuleNotFound\<rparr>) unset_handles))) = None
   \<and> snd (snd (preloadTransformers (sample_env []\<lparr>import_swc := Inl IncompatibleVersion\<rparr>) unset_handles)) = Returned ()
   \<and> transform (fst (snd (preloadTransformers (sample_env []\<lparr>import_swc := Inl IncompatibleVersion\<rparr>) unset_handles))) = None
   \<and> preloadTransformers
        (sample_env []\<lparr>IS_BUN_RUNTIME := True, import_typescript := Inl LoadError, import_swc := Inl LoadError\<rparr>)
        unset_handles = ([], unset_handles, Returned ())"
proof -
  have e: "import_typescript (sample_env []\<lparr>import_typescript := Inl ModuleNotFound\<rparr>) = Inl ModuleNotFound"
    "import_swc (sample_env []\<lparr>import_swc := Inl IncompatibleVersion\<rparr>) = Inl IncompatibleVersion"
    "IS_BUN_RUNTIME (sample_env []\<lparr>IS_BUN_RUNTIME := True, import_typescript := Inl LoadError, import_swc := Inl LoadError\<rparr>)"
    by simp_all
  have u: "ts unset_handles = None" "transform unset_handles = None"
    by (simp_all add: unset_handles_def)
  show ?thesis
    using preloadTransformers_never_throws [of "sample_env []\<lparr>import_typescript := Inl ModuleNotFound\<rparr>" unset_handles ModuleNotFound]
      preloadTransformers_never_throws [of "sample_env []\<lparr>import_swc := Inl IncompatibleVersion\<rparr>" unset_handles IncompatibleVersion]
      preloadTransformers_never_throws [of "sample_env []\<lparr>IS_BUN_RUNTIME := True, import_typescript := Inl LoadError, import_swc := Inl LoadError\<rparr>" unset_handles LoadError]
      e u
    by simp
qed

text \<open>
  Claim C2 says that each provider's handle is set whenever its own import succeeds. The
  source awaits both imports through one \<^verbatim>\<open>Promise.all\<close> and assigns the handles after
  it: with the compiler's import succeeding and the transformer's failing, the compiler's
  handle remains unset.
\<close>

theorem preloadTransformers_independent_counterexample:
  "\<not> IS_BUN_RUNTIME (sample_env []\<lparr>import_swc := Inl ModuleNotFound\<rparr>)
   \<and> import_typescript (sample_env []\<lparr>import_swc := Inl ModuleNotFound\<rparr>) = Inr \<lparr>default_export = sample_ts\<rparr>
   \<and> import_swc (sample_env []\<lparr>import_swc := Inl ModuleNotFound\<rparr>) = Inl ModuleNotFound
   \<and> ts (fst (snd (preloadTransformers (sample_env []\<lparr>import_swc := Inl ModuleNotFound\<rparr>) unset_handles))) = None"
  by (simp add: preloadTransformers_def preload_try_def Promise_all_def sample_env_def unset_handles_def)

text \<open>
  Claim C2, as amended. Outside the restricted runtime both imports are started, and the
  handles are assigned together or not at all: when both imports succeed, both handles
  are set to the imported provider and transformer; when either import fails, both handles
  keep the values they had. In every case the function returns normally.
\<close>

theorem preloadTransformers_all_or_nothing:
  "\<not> IS_BUN_RUNTIME ev \<Longrightarrow>
     (import_typescript ev = Inr typescript \<and> import_swc ev = Inr swc \<longrightarrow>
        fst (snd (preloadTransformers ev h))
          = h\<lparr>ts := Some (default_export typescript), transform := Some (transform_export swc)\<rparr>)
     \<and> (import_typescript ev = Inl e \<or> import_swc ev = Inl e \<longrightarrow>
          fst (snd (preloadTransformers ev h)) = h)
     \<and> fst (preloadTransformers ev h)
          = [Log ChDebug [ArgString ''Preloading Typescript transformers...''],
             Import ''typescript'', Import ''@swc/core'']
     \<and> snd (snd (preloadTransformers ev h)) = Returned ()"
  by (auto simp: preloadTransformers_def preload_try_def Promise_all_def split: sum.splits prod.splits)

theorem preloadTransformers_all_or_nothing_witness:
  "\<not> IS_BUN_RUNTIME (sample_env [])
   \<and> fst (snd (preloadTransformers (sample_env []) unset_handles)) = loaded_handles
   \<and> fst (snd (preloadTransformers (sample_env []\<lparr>import_swc := Inl ModuleNotFound\<rparr>) unset_handles)) = unset_handles
   \<and> fst (snd (preloadTransformers (sample_env []\<lparr>import_typescript := Inl LoadError\<rparr>) unset_handles)) = unset_handles"
proof -
  have b: "\<not> IS_BUN_RUNTIME (sample_env [])" "\<not> IS_BUN_RUNTIME (sample_env []\<lparr>import_swc := Inl ModuleNotFound\<rparr>)"
    "\<not> IS_BUN_RUNTIME (sample_env []\<lparr>import_typescript := Inl LoadError\<rparr>)"
    by (simp_all add: sample_env_def)
  have i: "import_typescript (sample_env []) = Inr \<lparr>default_export = sample_ts\<rparr>"
    "import_swc (sample_env []) = Inr \<lparr>transform_export = sample_swc\<rparr>"
    by (simp_all add: sample_env_def)
  have l: "unset_handles\<lparr>ts := Some sample_ts, transform := Some sample_swc\<rparr> = loaded_handles"
    by (simp add: unset_handles_def loaded_handles_def)
  show ?thesis
    using preloadTransformers_all_or_nothing [OF b(1), of "\<lparr>default_export = sample_ts\<rparr>" "\<lparr>transform_export = sample_swc\<rparr>" unset_handles ModuleNotFound]
      preloadTransformers_all_or_nothing [OF b(2), of "\<lparr>default_export = sample_ts\<rparr>" "\<lparr>transform_export = sample_swc\<rparr>" unset_handles ModuleNotFound]
      preloadTransformers_all_or_nothing [OF b(3), of "\<lparr>default_export = sample_ts\<rparr>" "\<lparr>transform_export = sample_swc\<rparr>" unset_handles LoadError]
      b i l
    by simp
qed

section \<open>Classifying the project\<close>

text \<open>
  Claim C5. isTypescriptProject answers true exactly when the configuration file exists
  at the project root and both handles are set, and its list of what is missing holds
  exactly the identifiers of the absent prerequisites, in the order \<^verbatim>\<open>tsconfig.json\<close>,
  \<^verbatim>\<open>typescript\<close>, \<^verbatim>\<open>@swc/core\<close>. In particular, without the configuration file the
  answer is false and the list holds \<^verbatim>\<open>tsconfig.json\<close>, whatever the handles.
\<close>

theorem isTypescriptProject_classification:
  "isTypeScript (isTypescriptProject ev h)
     = (existsSync ev (path_join ev (cwd ev) ''tsconfig.json'') \<and> ts h \<noteq> None \<and> transform h \<noteq> None)
   \<and> missing (isTypescriptProject ev h)
     = map fst (filter (\<lambda>(name, present). \<not> present)
         [(''tsconfig.json'', existsSync ev (path_join ev (cwd ev) ''tsconfig.json'')),
          (''typescript'', ts h \<noteq> None),
          (''@swc/core'', transform h \<noteq> None)])
   \<and> (\<not> existsSync ev (path_join ev (cwd ev) ''tsconfig.json'') \<longrightarrow>
        \<not> isTypeScript (isTypescriptProject ev h)
        \<and> ''tsconfig.json'' \<in> set (missing (isTypescriptProject ev h)))"
  by (simp add: isTypescriptProject_def Let_def)

theorem isTypescriptProject_classification_witness:
  "\<not> existsSync (sample_env []\<lparr>cwd := ''/elsewhere''\<rparr>)
       (path_join (sample_env []\<lparr>cwd := ''/elsewhere''\<rparr>) (cwd (sample_env []\<lparr>cwd := ''/elsewhere''\<rparr>)) ''tsconfig.json'')
   \<and> isTypescriptProject (sample_env []\<lparr>cwd := ''/elsewhere''\<rparr>) loaded_handles
       = \<lparr>isTypeScript = False, missing = [''tsconfig.json'']\<rparr>
   \<and> isTypescriptProject (sample_env []\<lparr>cwd := ''/elsewhere''\<rparr>) unset_handles
       = \<lparr>isTypeScript = False, missing = [''tsconfig.json'', ''typescript'', ''@swc/core'']\<rparr>
   \<and> isTypescriptProject (sample_env []) (loaded_handles\<lparr>ts := None\<rparr>)
       = \<lparr>isTypeScript = False, missing = [''typescript'']\<rparr>
   \<and> isTypescriptProject (sample_env []) loaded_handles = \<lparr>isTypeScript = True, missing = []\<rparr>"
proof -
  have x: "\<not> existsSync (sample_env []\<lparr>cwd := ''/elsewhere''\<rparr>)
       (path_join (sample_env []\<lparr>cwd := ''/elsewhere''\<rparr>) (cwd (sample_env []\<lparr>cwd := ''/elsewhere''\<rparr>)) ''tsconfig.json'')"
    "existsSync (sample_env []) (path_join (sample_env []) (cwd (sample_env [])) ''tsconfig.json'')"
    by (simp_all add: sample_env_def)
  have h: "ts loaded_handles \<noteq> None" "transform loaded_handles \<noteq> None"
    "ts unset_handles = None" "transform unset_handles = None"
    by (simp_all add: loaded_handles_def unset_handles_def)
  have r: "(r :: Classification) = \<lparr>isTypeScript = isTypeScript r, missing = missing r\<rparr>" for r
    by simp
  show ?thesis
    using isTypescriptProject_classification [of "sample_env []\<lparr>cwd := ''/elsewhere''\<rparr>" loaded_handles]
      isTypescriptProject_classification [of "sample_env []\<lparr>cwd := ''/elsewhere''\<rparr>" unset_handles]
      isTypescriptProject_classification [of "sample_env []" "loaded_handles\<lparr>ts := None\<rparr>"]
      isTypescriptProject_classification [of "sample_env []" loaded_handles]
      x h
    by (auto intro: Classification.equality)
qed

section \<open>Resolving the compiler options\<close>

text \<open>
  Claim C9. When the configuration file is read, the compiler is loaded and the
  provider's parser reports an error for the text, getTypeScriptCompilerOptions logs the
  error on the error channel and calls \<^verbatim>\<open>process.exit\<close> with status 1; no option set
  is returned.
\<close>

theorem getTypeScriptCompilerOptions_parse_error_fatal:
  assumes "readFile ev (path_join ev (cwd ev) ''tsconfig.json'') = Inr contents"
    and "ts h = Some tsp"
    and "error (parseConfigFileTextToJson tsp (path_join ev (cwd ev) ''tsconfig.json'') contents) = Some err"
  shows "getTypeScriptCompilerOptions ev h =
           ([Log ChError [ArgString ''Error parsing tsconfig.json:'', ArgDiagnostic err], ProcessExit 1],
            Exited)"
  using assms by (simp add: getTypeScriptCompilerOptions_def Let_def)

theorem getTypeScriptCompilerOptions_parse_error_fatal_witness:
  "readFile (sample_env ''{'') (path_join (sample_env ''{'') (cwd (sample_env ''{'')) ''tsconfig.json'') = Inr ''{''
   \<and> error (parseConfigFileTextToJson sample_ts ''/project/tsconfig.json'' ''{'') = Some config_error
   \<and> getTypeScriptCompilerOptions (sample_env ''{'') loaded_handles =
       ([Log ChError [ArgString ''Error parsing tsconfig.json:'', ArgDiagnostic config_error], ProcessExit 1],
        Exited)"
proof -
  have r: "readFile (sample_env ''{'') (path_join (sample_env ''{'') (cwd (sample_env ''{'')) ''tsconfig.json'') = Inr ''{''"
    by (simp add: sample_env_def)
  have h: "ts loaded_handles = Some sample_ts" by (simp add: loaded_handles_def)
  have n: "path_join (sample_env ''{'') (cwd (sample_env ''{'')) ''tsconfig.json'' = ''/project/tsconfig.json''"
    by (simp add: sample_env_def)
  have p: "error (parseConfigFileTextToJson sample_ts ''/project/tsconfig.json'' ''{'') = Some config_error"
    by (simp add: sample_ts_def sample_parse_def tsconfig_text_def)
  show ?thesis
    using getTypeScriptCompilerOptions_parse_error_fatal [OF r h, of config_error] n p r
    by simp
qed

text \<open>
  What the function does once the text is parsed without error: the fatal branch is taken
  exactly when the converted option set itself has a truthy option named \<^verbatim>\<open>errors\<close>.
  The list of errors that the conversion reports beside the option set is not read.
\<close>

lemma getTypeScriptCompilerOptions_after_conversion:
  assumes "readFile ev (path_join ev (cwd ev) ''tsconfig.json'') = Inr contents"
    and "ts h = Some tsp"
    and "parseConfigFileTextToJson tsp (path_join ev (cwd ev) ''tsconfig.json'') contents = parsed"
    and "error parsed = None"
    and "get_property (config parsed) ''compilerOptions'' = Inr compilerOptions"
    and "convertCompilerOptionsFromJson tsp compilerOptions
           (path_dirname ev (path_join ev (cwd ev) ''tsconfig.json'')) = converted"
  shows "getTypeScriptCompilerOptions ev h =
           (if truthy (option_value (options converted) ''errors'')
            then ([Log ChError [ArgString ''Error parsing compiler options from tsconfig.json''],
                   ProcessExit 1], Exited)
            else ([], Returned (options converted)))"
  using assms by (simp add: getTypeScriptCompilerOptions_def Let_def)

text \<open>
  Claim C1 says that errors reported by the conversion are fatal. On the sample project
  whose configuration sets the target \<^verbatim>\<open>bogus\<close>, the conversion reports an error and
  an option set without an option \<^verbatim>\<open>errors\<close>; getTypeScriptCompilerOptions logs
  nothing, does not exit and returns that option set.
\<close>

theorem getTypeScriptCompilerOptions_conversion_errors_returned:
  "readFile (sample_env (tsconfig_text ''bogus'')) ''/project/tsconfig.json'' = Inr (tsconfig_text ''bogus'')
   \<and> parseConfigFileTextToJson sample_ts ''/project/tsconfig.json'' (tsconfig_text ''bogus'')
       = \<lparr>config = tsconfig_object ''bogus'', error = None\<rparr>
   \<and> errors (convertCompilerOptionsFromJson sample_ts (JObj [(''target'', JStr ''bogus'')]) ''/project'')
       = [config_error]
   \<and> getTypeScriptCompilerOptions (sample_env (tsconfig_text ''bogus'')) loaded_handles
       = ([], Returned Map.empty)"
  by (simp add: getTypeScriptCompilerOptions_def Let_def sample_env_def loaded_handles_def
      sample_ts_def sample_parse_def sample_convert_def tsconfig_text_def tsconfig_object_def
      option_value_def dq_def)

end
